theory Spec2Isabelle
  imports Complex_Main "HOL-Library.Word" "HOL-Library.Multiset"
begin

section \<open>Python values, errors and tensors\<close>

text \<open>
  Every \<open>raise\<close> of the Python source, and every exception raised by a library call
  it makes, is a value: functions that can fail return \<open>error + 'a\<close> with the
  exception in \<open>Inl\<close>.
\<close>

datatype error = ValueError | AttributeError | TypeError | IndexError | KeyError
  | RuntimeError | ZeroDivisionError | OSError

text \<open>
  The values a Python \<open>Dict[str, Any]\<close> can hold, as far as the code looks at them.
  A dictionary is an association list in insertion order (Python dictionaries keep it);
  floats are approximated by reals.
\<close>

datatype pykey = KStr string | KInt int | KBool bool | KNone | KTuple "pykey list"

datatype pyval = PNone | PBool bool | PInt int | PFloat real | PStr string
  | PBytes "nat list" | PList "pyval list" | PTuple "pyval list"
  | PDict "(pykey \<times> pyval) list"

type_synonym item = "(string \<times> pyval) list"

text \<open>\<open>k in data_item\<close>\<close>

definition has_key :: "string \<Rightarrow> item \<Rightarrow> bool" where
  "has_key k data_item = List.member (map fst data_item) k"

text \<open>\<open>obj[k]\<close> for a string \<open>k\<close>: KeyError on a dictionary without the key, TypeError
  on \<open>None\<close> and on every other value modelled here.\<close>

definition py_getitem :: "pyval \<Rightarrow> string \<Rightarrow> error + pyval" where
  "py_getitem obj k =
    (case obj of
      PDict kvs \<Rightarrow> (case map_of kvs (KStr k) of Some v \<Rightarrow> Inr v | None \<Rightarrow> Inl KeyError)
    | _ \<Rightarrow> Inl TypeError)"

text \<open>\<open>float(v)\<close>. A string is parsed by Python; no string reaches this call in the
  code modelled, and the model answers ValueError for all of them.\<close>

definition py_float :: "pyval \<Rightarrow> error + real" where
  "py_float v =
    (case v of
      PFloat x \<Rightarrow> Inr x
    | PInt i \<Rightarrow> Inr (real_of_int i)
    | PBool b \<Rightarrow> Inr (if b then 1 else 0)
    | PStr _ \<Rightarrow> Inl ValueError
    | _ \<Rightarrow> Inl TypeError)"

text \<open>A \<open>Dict[str, Any]\<close> as a Python value.\<close>

definition item_dict :: "item \<Rightarrow> pyval" where
  "item_dict data = PDict (map (\<lambda>(k, v). (KStr k, v)) data)"

text \<open>The numbers of a (nested) list of numbers, in order: \<open>np.array(v)\<close>, flattened.\<close>

fun np_array :: "pyval \<Rightarrow> real list" where
  "np_array (PFloat x) = [x]"
| "np_array (PInt i) = [real_of_int i]"
| "np_array (PList vs) = concat (map np_array vs)"
| "np_array (PTuple vs) = concat (map np_array vs)"
| "np_array _ = []"

text \<open>
  A tensor (\<open>torch.Tensor\<close>, \<open>np.ndarray\<close>) is its shape and its elements in
  row-major order.
\<close>

datatype 'a tensor = Tensor (shape: "nat list") (vals: "'a list")

text \<open>\<open>t.tolist()\<close>: nested lists of floats, a bare float for a tensor of no dimension.\<close>

fun tolist_of :: "nat list \<Rightarrow> real list \<Rightarrow> pyval" where
  "tolist_of [] vs = (case vs of [] \<Rightarrow> PNone | v # _ \<Rightarrow> PFloat v)"
| "tolist_of (n # s) vs =
    PList (map (\<lambda>k. tolist_of s (take (prod_list s) (drop (k * prod_list s) vs))) [0..<n])"

definition tolist :: "real tensor \<Rightarrow> pyval" where
  "tolist t = tolist_of (shape t) (vals t)"

section \<open>\<open>ActiveHashedInteractionNetwork\<close> (ai-model.py)\<close>

subsection \<open>\<open>hash_function\<close>\<close>

definition power :: "int list" where
  "power = [1, 2, 4, 8, 16, 32, 64, 128]"

text \<open>Arithmetic on \<open>torch.long\<close> wraps around at 64 bits (two's complement).\<close>

definition wrap64 :: "int \<Rightarrow> int" where
  "wrap64 z = sint (word_of_int z :: 64 word)"

text \<open>
  \<open>hash_function hash_size randn x\<close>: \<open>hash_size\<close> is \<open>self.hash_size\<close>, and
  \<open>randn r c\<close> is the entry at row \<open>r\<close>, column \<open>c\<close> of the matrix that
  \<open>torch.randn(x.size(-1), 32)\<close> returns in this call: the draw is made inside the
  function, on every call, so it is an argument of the call and not part of the model's
  state.

  Indexing \<open>binary[:, :, i:i+8]\<close> needs at least three dimensions (IndexError), and
  with more than three the slice of 32 columns does not broadcast against the 8 powers
  (RuntimeError). The remainder of an element of an integer tensor by zero raises (on
  the CPU). For a positive divisor both \<open>torch\<close>'s \<open>%\<close> and \<open>mod\<close> on
  \<open>int\<close> return a value in \<open>[0, hash_size)\<close>. The 0/1 values of \<open>binary\<close> are
  kept as integers: their products with the powers and the sums are exact in floating
  point.
\<close>

definition hash_function :: "nat \<Rightarrow> (nat \<Rightarrow> nat \<Rightarrow> real) \<Rightarrow> real tensor \<Rightarrow> error + int tensor" where
  "hash_function hash_size randn x =
    (case shape x of
      [b, s, d] \<Rightarrow>
        (let feats = map (\<lambda>k. take d (drop (k * d) (vals x))) [0..<b * s];
             projection = map (\<lambda>v. map (\<lambda>c. sum_list (map2 (\<lambda>a r. a * randn r c) v [0..<d])) [0..<32]) feats;
             binary = map (map (\<lambda>p. if p > 0 then (1::int) else 0)) projection;
             indices = map (\<lambda>i. map (\<lambda>bits. sum_list (map2 (*) (take 8 (drop i bits)) power)) binary)
                         [0, 8, 16, 24];
             combined = fold (\<lambda>idx combined. map2 (\<lambda>c j. wrap64 (c * 256 + j) mod int hash_size) combined idx)
                         (tl indices) (hd indices)
         in if hash_size = 0 \<and> b * s \<noteq> 0 then Inl ZeroDivisionError
            else Inr (Tensor [b, s] combined))
    | _ \<Rightarrow> Inl (if length (shape x) < 3 then IndexError else RuntimeError))"

text \<open>
  \<open>self.hash_embedding = nn.Embedding(hash_size, hidden_dim)\<close>: a table of
  \<open>num_embeddings\<close> rows; a lookup with an index outside \<open>[0, num_embeddings)\<close>
  raises IndexError.
\<close>

definition embedding_lookup :: "nat \<Rightarrow> (nat \<Rightarrow> real list) \<Rightarrow> int tensor \<Rightarrow> error + real list list" where
  "embedding_lookup num_embeddings weight idx =
    (if list_all (\<lambda>i. 0 \<le> i \<and> i < int num_embeddings) (vals idx)
     then Inr (map (\<lambda>i. weight (nat i)) (vals idx))
     else Inl IndexError)"

subsection \<open>\<open>forward\<close>\<close>

text \<open>
  The configuration and the learned parameters of one model instance. \<open>layers\<close> stands
  for the floating-point layers of \<open>forward\<close> (input projection, activation, query
  generation, memory access, transformer encoder, output projection; lines 128-129 and
  138-179): from the features and the looked-up hash embeddings it gives \<open>output\<close>,
  \<open>attention_weights\<close> and \<open>memory_query\<close>, or the exception one of them raises.
  Nothing proved below depends on what it computes.
\<close>

record ahin =
  input_dim :: nat
  hidden_dim :: nat
  output_dim :: nat
  hash_size :: nat
  hash_embedding :: "nat \<Rightarrow> real list"
  layers :: "real tensor \<Rightarrow> real list list \<Rightarrow> error + (real tensor \<times> real tensor \<times> real tensor)"

text \<open>The \<open>metadata\<close> dictionary that \<open>forward\<close> returns beside \<open>output\<close>.\<close>

record metadata =
  hash_indices :: "int tensor"
  attention_weights :: "real tensor"
  memory_query :: "real tensor"

text \<open>
  \<open>batch_size, seq_len, _ = features.shape\<close> raises ValueError unless the shape has
  exactly three entries; \<open>nn.Linear(input_dim, hidden_dim)\<close> raises RuntimeError when
  the last dimension is not \<open>input_dim\<close>.
\<close>

definition forward :: "ahin \<Rightarrow> (nat \<Rightarrow> nat \<Rightarrow> real) \<Rightarrow> real tensor \<Rightarrow> error + (real tensor \<times> metadata)" where
  "forward m randn features =
    (case shape features of
      [batch_size, seq_len, d] \<Rightarrow>
        if d \<noteq> input_dim m then Inl RuntimeError
        else
          (case hash_function (hash_size m) randn features of
            Inl e \<Rightarrow> Inl e
          | Inr idx \<Rightarrow>
              (case embedding_lookup (hash_size m) (hash_embedding m) idx of
                Inl e \<Rightarrow> Inl e
              | Inr hash_embed \<Rightarrow>
                  (case layers m features hash_embed of
                    Inl e \<Rightarrow> Inl e
                  | Inr (output, attn, query) \<Rightarrow>
                      Inr (output,
                        \<lparr>hash_indices = idx, attention_weights = attn, memory_query = query\<rparr>))))
    | _ \<Rightarrow> Inl ValueError)"

subsection \<open>Tensor operations used by the callers\<close>

text \<open>\<open>t.unsqueeze(0)\<close>\<close>

definition unsqueeze0 :: "'a tensor \<Rightarrow> 'a tensor" where
  "unsqueeze0 t = Tensor (1 # shape t) (vals t)"

text \<open>\<open>t.squeeze()\<close>: every dimension of size 1 is removed.\<close>

definition squeeze :: "'a tensor \<Rightarrow> 'a tensor" where
  "squeeze t = Tensor (filter (\<lambda>n. n \<noteq> 1) (shape t)) (vals t)"

text \<open>
  What the two names bound by \<open>output, hash_codes = self.ahin_model(...)\<close> hold: a
  tensor and a dictionary. \<open>obj.squeeze()\<close> is an attribute lookup, and a \<open>dict\<close>
  has no attribute \<open>squeeze\<close>.
\<close>

datatype pyobj = TensorObj "real tensor" | DictObj metadata

definition py_squeeze :: "pyobj \<Rightarrow> error + real tensor" where
  "py_squeeze obj = (case obj of TensorObj t \<Rightarrow> Inr (squeeze t) | DictObj _ \<Rightarrow> Inl AttributeError)"

text \<open>Iterating over a tensor yields its slices along the first dimension.\<close>

definition rows :: "'a tensor \<Rightarrow> 'a tensor list" where
  "rows t =
    (case shape t of
      [] \<Rightarrow> []
    | n # s \<Rightarrow> map (\<lambda>k. Tensor s (take (prod_list s) (drop (k * prod_list s) (vals t)))) [0..<n])"

text \<open>
  \<open>np.stack\<close> and \<open>torch.stack\<close>: the arrays must have one shape, and there must be
  at least one (ValueError from numpy, RuntimeError from torch).
\<close>

definition stack :: "error \<Rightarrow> 'a tensor list \<Rightarrow> error + 'a tensor" where
  "stack err ts =
    (case ts of
      [] \<Rightarrow> Inl err
    | t # _ \<Rightarrow>
        if list_all (\<lambda>u. shape u = shape t) ts
        then Inr (Tensor (length ts # shape t) (concat (map vals ts)))
        else Inl err)"

text \<open>\<open>t.mean(dim=0)\<close>\<close>

definition mean_dim0 :: "real tensor \<Rightarrow> error + real tensor" where
  "mean_dim0 t =
    (case shape t of
      [] \<Rightarrow> Inl IndexError
    | n # s \<Rightarrow>
        Inr (Tensor s (map (\<lambda>col. sum_list col / real n) (transpose (map vals (rows t))))))"

text \<open>
  \<open>F.normalize(t, p=2, dim=0)\<close>: every element is divided by
  \<open>max(norm, eps)\<close>, the norm taken along the first dimension and \<open>eps = 1e-12\<close>.
\<close>

definition normalize_dim0 :: "real tensor \<Rightarrow> error + real tensor" where
  "normalize_dim0 t =
    (case shape t of
      [] \<Rightarrow> Inl IndexError
    | n # s \<Rightarrow>
        Inr (Tensor (n # s)
          (concat (transpose
            (map (\<lambda>col. map (\<lambda>v. v / max (sqrt (sum_list (map (\<lambda>w. w * w) col))) (1 / 10 ^ 12)) col)
              (transpose (map vals (rows t))))))))"

text \<open>A loop that appends one result per element stops at the first exception.\<close>

fun map_err :: "('a \<Rightarrow> error + 'b) \<Rightarrow> 'a list \<Rightarrow> error + 'b list" where
  "map_err f [] = Inr []"
| "map_err f (x # xs) =
    (case f x of
      Inl e \<Rightarrow> Inl e
    | Inr y \<Rightarrow> (case map_err f xs of Inl e \<Rightarrow> Inl e | Inr ys \<Rightarrow> Inr (y # ys)))"

section \<open>\<open>ConsciousnessNetwork\<close> (ai-algorithm-module)\<close>

text \<open>
  The network object: its configuration, its model, and the two helpers whose code is
  not among the sources. \<open>generate_embedding_from_data\<close> is
  \<open>self._generate_embedding_from_data\<close>, taken as a parameter (any function from an
  item to an array, or to an exception). \<open>node_ids k\<close> is the id that
  \<open>add_node\<close> gives to a node added when the network holds \<open>k\<close> nodes.
\<close>

record consciousness_network =
  unified_dim :: nat
  ahin_model :: ahin
  generate_embedding_from_data :: "item \<Rightarrow> error + real tensor"
  node_ids :: "nat \<Rightarrow> string"

text \<open>
  The mutable part of the object: the attributes \<open>self.nodes\<close> and
  \<open>self.edges\<close>. They hold Python values: lists whenever the builder assigned them,
  whatever the file held after \<open>load_from_file\<close>.
\<close>

record network_state =
  nodes :: pyval
  edges :: pyval

subsection \<open>\<open>extract_consciousness_representation\<close>\<close>

text \<open>
  The loop \<open>for embedding in embeddings_tensor\<close>. \<open>randns k\<close> is the matrix drawn by
  \<open>hash_function\<close> in the \<open>k\<close>-th call of the model.
\<close>

fun ahin_outputs :: "ahin \<Rightarrow> (nat \<Rightarrow> nat \<Rightarrow> nat \<Rightarrow> real) \<Rightarrow> nat \<Rightarrow> real tensor list
    \<Rightarrow> error + (real tensor list \<times> real tensor list)" where
  "ahin_outputs m randns k [] = Inr ([], [])"
| "ahin_outputs m randns k (embedding # rest) =
    (case forward m (randns k) (unsqueeze0 embedding) of
      Inl e \<Rightarrow> Inl e
    | Inr (output, hash_codes) \<Rightarrow>
        (case py_squeeze (TensorObj output) of
          Inl e \<Rightarrow> Inl e
        | Inr out \<Rightarrow>
            (case py_squeeze (DictObj hash_codes) of
              Inl e \<Rightarrow> Inl e
            | Inr codes \<Rightarrow>
                (case ahin_outputs m randns (Suc k) rest of
                  Inl e \<Rightarrow> Inl e
                | Inr (outputs, hash_codes_list) \<Rightarrow> Inr (out # outputs, codes # hash_codes_list)))))"

definition extract_consciousness_representation ::
    "consciousness_network \<Rightarrow> (nat \<Rightarrow> nat \<Rightarrow> nat \<Rightarrow> real) \<Rightarrow> item list \<Rightarrow> error + real tensor" where
  "extract_consciousness_representation cn randns user_data =
    (if user_data = [] then Inr (Tensor [unified_dim cn] (replicate (unified_dim cn) 0))
     else
      (case map_err (generate_embedding_from_data cn) user_data of
        Inl e \<Rightarrow> Inl e
      | Inr embeddings \<Rightarrow>
          (case stack ValueError embeddings of
            Inl e \<Rightarrow> Inl e
          | Inr embeddings_tensor \<Rightarrow>
              (case ahin_outputs (ahin_model cn) randns 0 (rows embeddings_tensor) of
                Inl e \<Rightarrow> Inl e
              | Inr (outputs, hash_codes_list) \<Rightarrow>
                  (case stack RuntimeError outputs of
                    Inl e \<Rightarrow> Inl e
                  | Inr stacked \<Rightarrow>
                      (case mean_dim0 stacked of
                        Inl e \<Rightarrow> Inl e
                      | Inr aggregated_output \<Rightarrow> normalize_dim0 aggregated_output))))))"

subsection \<open>\<open>_determine_data_type\<close>\<close>

definition determine_data_type :: "item \<Rightarrow> string" where
  "determine_data_type data_item =
    (if has_key ''text'' data_item then ''text_data''
     else if has_key ''image'' data_item then ''image_data''
     else if has_key ''audio'' data_item then ''audio_data''
     else if list_all (\<lambda>k. has_key k data_item) [''text'', ''image''] then ''multimodal_data''
     else ''generic_data'')"

subsection \<open>\<open>add_node\<close>, \<open>add_edge\<close>, \<open>query_similar_nodes\<close>\<close>

text \<open>
  Modelled from the spec: \<open>add_node\<close> is not among the sources. The spec's GraphNode
  is \<open>{id, kind, attributes, embedding}\<close> with ids unique within a session, and an
  item node gets "its own embedding" from the external extractor; the source reads the
  keys \<open>'id'\<close> and \<open>'embedding'\<close> of a node. The call appends the node to
  \<open>self.nodes\<close> and returns its id.
\<close>

definition graph_node :: "string \<Rightarrow> string \<Rightarrow> item \<Rightarrow> real tensor \<Rightarrow> pyval" where
  "graph_node node_id node_type data emb =
    PDict [(KStr ''id'', PStr node_id), (KStr ''kind'', PStr node_type),
           (KStr ''attributes'', item_dict data), (KStr ''embedding'', tolist emb)]"

definition add_node :: "consciousness_network \<Rightarrow> network_state \<Rightarrow> item \<Rightarrow> string
    \<Rightarrow> real tensor option \<Rightarrow> network_state \<times> (error + string)" where
  "add_node cn s data node_type embedding =
    (case (case embedding of Some e \<Rightarrow> Inr e | None \<Rightarrow> generate_embedding_from_data cn data) of
      Inl e \<Rightarrow> (s, Inl e)
    | Inr emb \<Rightarrow>
        (case nodes s of
          PList ns \<Rightarrow>
            (let node_id = node_ids cn (length ns)
             in (s\<lparr>nodes := PList (ns @ [graph_node node_id node_type data emb])\<rparr>, Inr node_id))
        | _ \<Rightarrow> (s, Inl AttributeError)))"

text \<open>
  Modelled from the spec: \<open>add_edge\<close> is not among the sources. The spec's GraphEdge
  is \<open>{source_id, dest_id, kind, weight, attributes}\<close>; the call appends it to
  \<open>self.edges\<close>.
\<close>

definition graph_edge :: "pyval \<Rightarrow> pyval \<Rightarrow> string \<Rightarrow> real \<Rightarrow> item \<Rightarrow> pyval" where
  "graph_edge source target edge_type weight attributes =
    PDict [(KStr ''source_id'', source), (KStr ''dest_id'', target),
           (KStr ''kind'', PStr edge_type), (KStr ''weight'', PFloat weight),
           (KStr ''attributes'', item_dict attributes)]"

definition add_edge :: "network_state \<Rightarrow> pyval \<Rightarrow> pyval \<Rightarrow> string \<Rightarrow> real \<Rightarrow> item
    \<Rightarrow> network_state \<times> (error + unit)" where
  "add_edge s source target edge_type weight attributes =
    (case edges s of
      PList es \<Rightarrow>
        (s\<lparr>edges := PList (es @ [graph_edge source target edge_type weight attributes])\<rparr>, Inr ())
    | _ \<Rightarrow> (s, Inl AttributeError))"

text \<open>
  Modelled from the spec: the cosine similarity of two vectors. The spec does not say
  what a vector of norm 0 gives; in HOL the quotient is then 0.
\<close>

definition cosine_similarity :: "real list \<Rightarrow> real list \<Rightarrow> real" where
  "cosine_similarity a b =
    sum_list (map2 (*) a b)
      / (sqrt (sum_list (map (\<lambda>x. x * x) a)) * sqrt (sum_list (map (\<lambda>x. x * x) b)))"

definition node_embedding :: "pyval \<Rightarrow> real list" where
  "node_embedding node = (case py_getitem node ''embedding'' of Inr v \<Rightarrow> np_array v | Inl _ \<Rightarrow> [])"

text \<open>The spec's result element \<open>{id, similarity_score, node_fields}\<close>.\<close>

definition with_score :: "pyval \<times> real \<Rightarrow> pyval" where
  "with_score ns =
    (case fst ns of
      PDict kvs \<Rightarrow> PDict ((KStr ''similarity_score'', PFloat (snd ns)) # kvs)
    | _ \<Rightarrow> PDict [(KStr ''similarity_score'', PFloat (snd ns))])"

text \<open>
  Modelled from the spec: \<open>query_similar_nodes\<close> is not among the sources. "Computes
  cosine similarity between \<open>embedding\<close> and every node's stored embedding currently
  in the graph. Returns the \<open>top_k\<close> highest-scoring nodes (fewer if the graph has
  fewer nodes), sorted descending by score; ties broken by earliest insertion order
  (stable). Excludes no node by default." \<open>ranked_nodes\<close> is every node with its score,
  best first; \<open>sort_key\<close> is a stable insertion sort.
\<close>

definition ranked_nodes :: "pyval list \<Rightarrow> real list \<Rightarrow> (pyval \<times> real) list" where
  "ranked_nodes ns embedding =
    sort_key (\<lambda>p. - snd p) (map (\<lambda>node. (node, cosine_similarity embedding (node_embedding node))) ns)"

definition query_similar_nodes :: "network_state \<Rightarrow> real list \<Rightarrow> nat \<Rightarrow> error + pyval list" where
  "query_similar_nodes s embedding top_k =
    (case nodes s of
      PList ns \<Rightarrow> Inr (map with_score (take top_k (ranked_nodes ns embedding)))
    | _ \<Rightarrow> Inl TypeError)"

subsection \<open>\<open>_get_node_by_id\<close>\<close>

fun find_node :: "pyval list \<Rightarrow> string \<Rightarrow> error + pyval" where
  "find_node [] node_id = Inr PNone"
| "find_node (node # rest) node_id =
    (case py_getitem node ''id'' of
      Inl e \<Rightarrow> Inl e
    | Inr v \<Rightarrow> if v = PStr node_id then Inr node else find_node rest node_id)"

text \<open>Only lists are modelled as the value iterated over; anything else is answered
  with TypeError.\<close>

definition get_node_by_id :: "network_state \<Rightarrow> string \<Rightarrow> error + pyval" where
  "get_node_by_id s node_id =
    (case nodes s of PList ns \<Rightarrow> find_node ns node_id | _ \<Rightarrow> Inl TypeError)"

subsection \<open>\<open>generate_consciousness_graph\<close>\<close>

text \<open>The loop \<open>for sim_node in similar_nodes\<close>.\<close>

fun add_similarity_edges :: "network_state \<Rightarrow> string \<Rightarrow> pyval list \<Rightarrow> network_state \<times> (error + unit)" where
  "add_similarity_edges s node_id [] = (s, Inr ())"
| "add_similarity_edges s node_id (sim_node # rest) =
    (case py_getitem sim_node ''id'' of
      Inl e \<Rightarrow> (s, Inl e)
    | Inr sim_id \<Rightarrow>
        if sim_id \<noteq> PStr node_id then
          (case py_getitem sim_node ''similarity_score'' of
            Inl e \<Rightarrow> (s, Inl e)
          | Inr score \<Rightarrow>
              (case py_float score of
                Inl e \<Rightarrow> (s, Inl e)
              | Inr w \<Rightarrow>
                  (case add_edge s (PStr node_id) sim_id ''semantic_similarity'' w
                          [(''similarity_score'', PFloat w)] of
                    (s', Inl e) \<Rightarrow> (s', Inl e)
                  | (s', Inr _) \<Rightarrow> add_similarity_edges s' node_id rest)))
        else add_similarity_edges s node_id rest)"

text \<open>The loop \<open>for i, data_item in enumerate(user_data)\<close>, from index \<open>i\<close> on.\<close>

fun process_items :: "consciousness_network \<Rightarrow> string \<Rightarrow> network_state \<Rightarrow> nat \<Rightarrow> item list
    \<Rightarrow> network_state \<times> (error + unit)" where
  "process_items cn core_node_id s i [] = (s, Inr ())"
| "process_items cn core_node_id s i (data_item # rest) =
    (case add_node cn s data_item (determine_data_type data_item) None of
      (s1, Inl e) \<Rightarrow> (s1, Inl e)
    | (s1, Inr node_id) \<Rightarrow>
        (case add_edge s1 (PStr core_node_id) (PStr node_id) ''consciousness_connection''
                (1 / real (i + 1)) [] of
          (s2, Inl e) \<Rightarrow> (s2, Inl e)
        | (s2, Inr _) \<Rightarrow>
            (case get_node_by_id s2 node_id of
              Inl e \<Rightarrow> (s2, Inl e)
            | Inr node \<Rightarrow>
                (case py_getitem node ''embedding'' of
                  Inl e \<Rightarrow> (s2, Inl e)
                | Inr emb \<Rightarrow>
                    (case query_similar_nodes s2 (np_array emb) 3 of
                      Inl e \<Rightarrow> (s2, Inl e)
                    | Inr similar_nodes \<Rightarrow>
                        (case add_similarity_edges s2 node_id similar_nodes of
                          (s3, Inl e) \<Rightarrow> (s3, Inl e)
                        | (s3, Inr _) \<Rightarrow> process_items cn core_node_id s3 (Suc i) rest))))))"

text \<open>The dictionary \<open>generate_consciousness_graph\<close> returns.\<close>

record graph =
  consciousness_vector :: pyval
  graph_nodes :: pyval
  graph_edges :: pyval

text \<open>
  Lines 61-104, from the consciousness vector on: the core node, the loop over the
  items, and the returned dictionary. \<open>now\<close> is what
  \<open>datetime.now().isoformat()\<close> returns.
\<close>

definition build_graph :: "consciousness_network \<Rightarrow> string \<Rightarrow> network_state \<Rightarrow> real tensor
    \<Rightarrow> item list \<Rightarrow> network_state \<times> (error + graph)" where
  "build_graph cn now s cv user_data =
    (case add_node cn s [(''type'', PStr ''core_consciousness''), (''timestamp'', PStr now)]
            ''consciousness'' (Some cv) of
      (s1, Inl e) \<Rightarrow> (s1, Inl e)
    | (s1, Inr core_node_id) \<Rightarrow>
        (case process_items cn core_node_id s1 0 user_data of
          (s2, Inl e) \<Rightarrow> (s2, Inl e)
        | (s2, Inr _) \<Rightarrow>
            (s2, Inr \<lparr>consciousness_vector = tolist cv, graph_nodes = nodes s2,
                      graph_edges = edges s2\<rparr>)))"

text \<open>
  The whole method: the state is cleared, the vector extracted, the graph built. It
  returns the state the object is left in, and the graph or the exception.
\<close>

definition generate_consciousness_graph :: "consciousness_network \<Rightarrow> string
    \<Rightarrow> (nat \<Rightarrow> nat \<Rightarrow> nat \<Rightarrow> real) \<Rightarrow> network_state \<Rightarrow> item list
    \<Rightarrow> network_state \<times> (error + graph)" where
  "generate_consciousness_graph cn now randns s user_data =
    (let s0 = s\<lparr>nodes := PList [], edges := PList []\<rparr> in
     case extract_consciousness_representation cn randns user_data of
       Inl e \<Rightarrow> (s0, Inl e)
     | Inr cv \<Rightarrow> build_graph cn now s0 cv user_data)"

text \<open>
  The number of \<open>semantic_similarity\<close> edges in a list of edges that originate at the
  node with a given id.
\<close>

definition is_similarity_edge_from :: "string \<Rightarrow> pyval \<Rightarrow> bool" where
  "is_similarity_edge_from node_id e =
    (py_getitem e ''source_id'' = Inr (PStr node_id)
     \<and> py_getitem e ''kind'' = Inr (PStr ''semantic_similarity''))"

definition similarity_edges_from :: "pyval \<Rightarrow> string \<Rightarrow> nat" where
  "similarity_edges_from es node_id =
    (case es of PList el \<Rightarrow> length (filter (is_similarity_edge_from node_id) el) | _ \<Rightarrow> 0)"

text \<open>
  What the loop leaves behind, for the proofs below. A node built by \<open>add_node\<close> as
  the \<open>k\<close>-th of the session is a dictionary with the \<open>k\<close>-th id and an embedding;
  a result of \<open>query_similar_nodes\<close> has an id and a float score.
\<close>

definition built_node :: "consciousness_network \<Rightarrow> nat \<Rightarrow> pyval \<Rightarrow> bool" where
  "built_node cn k node =
    (\<exists>kvs e. node = PDict kvs \<and> map_of kvs (KStr ''id'') = Some (PStr (node_ids cn k))
       \<and> map_of kvs (KStr ''embedding'') = Some e)"

definition scored_node :: "pyval \<Rightarrow> bool" where
  "scored_node sn =
    (\<exists>v x. py_getitem sn ''id'' = Inr v \<and> py_getitem sn ''similarity_score'' = Inr (PFloat x))"

text \<open>
  The edges the loop appends from index \<open>i\<close> on, given for every item the similarity
  edges (\<open>batch\<close>) added for it: the item's \<open>consciousness_connection\<close> edge, then its
  similarity edges. \<open>batches_bounded\<close> says that every batch holds similarity edges
  from the item's own node, at most \<open>min 3 (i + 1)\<close> of them for the item of index
  \<open>i\<close>; \<open>nodes_built\<close> that the item nodes were built in order.
\<close>

fun loop_edges :: "consciousness_network \<Rightarrow> string \<Rightarrow> nat \<Rightarrow> pyval list list \<Rightarrow> pyval list" where
  "loop_edges cn core_node_id i [] = []"
| "loop_edges cn core_node_id i (batch # batches) =
    graph_edge (PStr core_node_id) (PStr (node_ids cn (Suc i))) ''consciousness_connection''
        (1 / real (i + 1)) []
      # batch @ loop_edges cn core_node_id (Suc i) batches"

fun batches_bounded :: "consciousness_network \<Rightarrow> nat \<Rightarrow> pyval list list \<Rightarrow> bool" where
  "batches_bounded cn i [] = True"
| "batches_bounded cn i (batch # batches) =
    (list_all (is_similarity_edge_from (node_ids cn (Suc i))) batch
     \<and> length batch \<le> min 3 (Suc i) \<and> batches_bounded cn (Suc i) batches)"

fun nodes_built :: "consciousness_network \<Rightarrow> nat \<Rightarrow> pyval list \<Rightarrow> bool" where
  "nodes_built cn i [] = True"
| "nodes_built cn i (node # rest) = (built_node cn (Suc i) node \<and> nodes_built cn (Suc i) rest)"

definition is_connection_edge :: "pyval \<Rightarrow> bool" where
  "is_connection_edge e = (py_getitem e ''kind'' = Inr (PStr ''consciousness_connection''))"

subsection \<open>\<open>save_to_file\<close> and \<open>load_from_file\<close>\<close>


text \<open>\<open>str(i)\<close> for an integer.\<close>

fun digits_of :: "nat \<Rightarrow> string" where
  "digits_of n =
    (if n < 10 then [char_of (48 + n)] else digits_of (n div 10) @ [char_of (48 + n mod 10)])"

definition str_of_int :: "int \<Rightarrow> string" where
  "str_of_int i = (if i < 0 then CHR ''-'' # digits_of (nat (- i)) else digits_of (nat i))"


lemma map_err_cong [fundef_cong]:
  "xs = ys \<Longrightarrow> (\<And>x. x \<in> set ys \<Longrightarrow> f x = g x) \<Longrightarrow> map_err f xs = map_err g ys"
  by (induction ys arbitrary: xs) (auto split: sum.splits)










section \<open>A reference configuration\<close>

text \<open>
  The constructor's default sizes (\<open>input_dim = 512\<close>, \<open>hidden_dim = 256\<close>,
  \<open>output_dim = 128\<close>, \<open>hash_size = 1024\<close>), layers that return zeros, and an
  extractor that gives every item a feature vector of dimension \<open>input_dim\<close>, as the
  spec asks of it.
\<close>

definition example_model :: ahin where
  "example_model =
    \<lparr>input_dim = 512, hidden_dim = 256, output_dim = 128, hash_size = 1024,
     hash_embedding = (\<lambda>_. replicate 256 0),
     layers = (\<lambda>features hash_embed.
       Inr (Tensor [1, 128] (replicate 128 0), Tensor [1, 256] (replicate 256 0),
            Tensor [1, 256] (replicate 256 0)))\<rparr>"

definition example_network :: consciousness_network where
  "example_network =
    \<lparr>unified_dim = 128, ahin_model = example_model,
     generate_embedding_from_data = (\<lambda>_. Inr (Tensor [512] (replicate 512 0))),
     node_ids = (\<lambda>k. ''node_'' @ str_of_int (int k))\<rparr>"

text \<open>
  A small network for the builder: every item gets the embedding \<open>[1, 0]\<close>, and the
  ids are \<open>n\<close>, \<open>nn\<close>, \<open>nnn\<close>, ...
\<close>

definition unit_network :: consciousness_network where
  "unit_network =
    \<lparr>unified_dim = 2, ahin_model = example_model,
     generate_embedding_from_data = (\<lambda>_. Inr (Tensor [2] [1, 0])),
     node_ids = (\<lambda>k. replicate (Suc k) (CHR ''n''))\<rparr>"

text \<open>
  Five nodes \<open>v0 .. v4\<close> with two-dimensional embeddings; for the query \<open>[1, 0]\<close>
  the nodes \<open>v0\<close> and \<open>v4\<close> score 1, \<open>v1\<close> and \<open>v3\<close> tie at 0, and \<open>v2\<close>
  scores -1.
\<close>

definition vnode :: "string \<Rightarrow> real list \<Rightarrow> pyval" where
  "vnode i e = PDict [(KStr ''id'', PStr i), (KStr ''embedding'', PList (map PFloat e))]"

definition five_nodes :: network_state where
  "five_nodes =
    \<lparr>nodes = PList [vnode ''v0'' [1, 0], vnode ''v1'' [0, 1], vnode ''v2'' [- 1, 0],
        vnode ''v3'' [0, 1], vnode ''v4'' [1, 0]],
     edges = PList []\<rparr>"





section \<open>The hash projector\<close>

lemma list_all_map2:
  "(\<And>a b. P (f a b)) \<Longrightarrow> list_all P (map2 f xs ys)"
  by (auto simp: list_all_iff dest: set_zip_leftD)

text \<open>
  C10. For a feature tensor of three dimensions and every \<open>hash_size \<ge> 1\<close>,
  \<open>hash_function\<close> returns one index per position, every index lies in
  \<open>[0, hash_size)\<close> (the last step of the folding reduces modulo \<open>hash_size\<close>,
  whatever the 64-bit sum was), and the lookup in an embedding table of \<open>hash_size\<close>
  rows, which is what \<open>forward\<close> does with the indices, does not raise.
\<close>

theorem hash_function_indices_in_range:
  assumes "1 \<le> hs" and "shape x = [b, s, d]"
  shows "\<exists>t. hash_function hs randn x = Inr t \<and> shape t = [b, s] \<and> length (vals t) = b * s
           \<and> list_all (\<lambda>i. 0 \<le> i \<and> i < int hs) (vals t)
           \<and> (\<exists>looked_up. embedding_lookup hs weight t = Inr looked_up)"
proof -
  from assms(1) have pos: "0 < hs" by simp
  have rng: "\<And>c j. 0 \<le> wrap64 (c * 256 + j) mod int hs \<and> wrap64 (c * 256 + j) mod int hs < int hs"
    using pos by simp
  show ?thesis
    using assms pos
    by (simp add: hash_function_def Let_def embedding_lookup_def
        list_all_map2[where P="\<lambda>i. 0 \<le> i \<and> i < int hs", OF rng])
qed

theorem hash_function_indices_in_range_witness:
  "(1::nat) \<le> 1024 \<and> shape (Tensor [1, 1, 1] [1::real]) = [1, 1, 1]
   \<and> (\<exists>t. hash_function 1024 (\<lambda>r c. 1) (Tensor [1, 1, 1] [1]) = Inr t \<and> shape t = [1, 1]
         \<and> length (vals t) = 1 * 1
         \<and> list_all (\<lambda>i. 0 \<le> i \<and> i < int 1024) (vals t)
         \<and> (\<exists>looked_up. embedding_lookup 1024 (\<lambda>_. []) t = Inr looked_up))"
  using hash_function_indices_in_range[of 1024 "Tensor [1, 1, 1] [1]" 1 1 1 "\<lambda>r c. 1" "\<lambda>_. []"]
  by simp

lemma hash_function_other_ranks:
  "length (shape x) \<noteq> 3 \<Longrightarrow> isl (hash_function hs randn x)"
  by (cases "shape x" rule: list.exhaust; cases "tl (shape x)"; cases "tl (tl (shape x))";
      cases "tl (tl (tl (shape x)))")
     (auto simp: hash_function_def split: list.splits)

text \<open>
  C1. The bucket of a feature vector depends on the matrix drawn inside the call: the
  same one-element feature tensor, with \<open>hash_size = 1024\<close>, falls into bucket 1023
  when the draw is all ones and into bucket 0 when it is all minus ones. Two calls on
  one model with identical input need not agree.
\<close>

theorem hash_function_depends_on_draw:
  "hash_function 1024 (\<lambda>r c. 1) (Tensor [1, 1, 1] [1]) = Inr (Tensor [1, 1] [1023])
   \<and> hash_function 1024 (\<lambda>r c. - 1) (Tensor [1, 1, 1] [1]) = Inr (Tensor [1, 1] [0])"
  by code_simp

section \<open>Classification of items\<close>

text \<open>
  C2. An item with both a \<open>text\<close> and an \<open>image\<close> key is classified
  \<open>text_data\<close>: the test for \<open>text\<close> comes first, and the branch for
  \<open>multimodal_data\<close> is never reached.
\<close>

theorem determine_data_type_text_and_image:
  "determine_data_type [(''text'', PStr ''a note with a picture''), (''image'', PStr ''base64'')]
     = ''text_data''"
  by code_simp

lemma determine_data_type_never_multimodal:
  "determine_data_type data_item \<noteq> ''multimodal_data''"
  by (simp add: determine_data_type_def)

section \<open>The consciousness vector\<close>

lemma forward_needs_three_dimensions:
  "length (shape t) \<noteq> 2 \<Longrightarrow> forward m randn (unsqueeze0 t) = Inl ValueError"
  by (cases "shape t" rule: list.exhaust; cases "tl (shape t)"; cases "tl (tl (shape t))")
     (auto simp: forward_def unsqueeze0_def split: list.splits)

lemma ahin_outputs_raises:
  "embs \<noteq> [] \<Longrightarrow> \<exists>e. ahin_outputs m randns k embs = Inl e"
  by (cases embs) (auto simp: py_squeeze_def split: sum.splits prod.splits)

lemma rows_stack:
  "stack err ts = Inr t \<Longrightarrow> length (rows t) = length ts"
  by (auto simp: stack_def rows_def split: list.splits if_splits)

lemma map_err_length:
  "map_err f xs = Inr ys \<Longrightarrow> length ys = length xs"
  by (induction xs arbitrary: ys) (auto split: sum.splits)

lemma extract_raises:
  assumes "user_data \<noteq> []"
  shows "\<exists>e. extract_consciousness_representation cn randns user_data = Inl e"
proof (cases "map_err (generate_embedding_from_data cn) user_data")
  case (Inl e)
  with assms show ?thesis by (simp add: extract_consciousness_representation_def)
next
  case (Inr embeddings)
  note embs = this
  show ?thesis
  proof (cases "stack ValueError embeddings")
    case (Inl e)
    with embs assms show ?thesis by (simp add: extract_consciousness_representation_def)
  next
    case (Inr t)
    have "length (rows t) = length user_data"
      using rows_stack[OF Inr] map_err_length[OF embs] by simp
    with assms have "rows t \<noteq> []" by auto
    from ahin_outputs_raises[OF this] obtain e where
      "ahin_outputs (ahin_model cn) randns 0 (rows t) = Inl e" by blast
    with embs Inr assms show ?thesis by (simp add: extract_consciousness_representation_def)
  qed
qed

text \<open>
  C4. For every nonempty \<open>user_data\<close>, whatever the extractor, the model and the
  draws, \<open>extract_consciousness_representation\<close> raises instead of returning a
  vector. Two steps of the loop see to it: a per-item tensor \<open>t\<close> that is not
  two-dimensional (a feature vector has one dimension) gives, after
  \<open>unsqueeze(0)\<close>, a shape that \<open>forward\<close> cannot unpack into three names; and
  where \<open>forward\<close> does return, its second value is the metadata dictionary, and
  \<open>squeeze\<close> on it raises AttributeError.
\<close>

theorem extract_consciousness_representation_raises:
  "(user_data \<noteq> [] \<longrightarrow> (\<exists>e. extract_consciousness_representation cn randns user_data = Inl e))
   \<and> (length (shape t) \<noteq> 2 \<longrightarrow> forward m randn (unsqueeze0 t) = Inl ValueError)
   \<and> py_squeeze (DictObj md) = Inl AttributeError"
  using extract_raises forward_needs_three_dimensions by (simp add: py_squeeze_def)

theorem extract_consciousness_representation_raises_witness:
  "[[(''text'', PStr ''hello'')]] \<noteq> ([] :: item list)
   \<and> (\<exists>e. extract_consciousness_representation example_network (\<lambda>k r c. 1)
            [[(''text'', PStr ''hello'')]] = Inl e)
   \<and> length (shape (Tensor [512] (replicate 512 (0::real)))) \<noteq> 2
   \<and> forward example_model (\<lambda>r c. 1) (unsqueeze0 (Tensor [512] (replicate 512 0))) = Inl ValueError
   \<and> py_squeeze (DictObj \<lparr>hash_indices = Tensor [1, 1] [0], attention_weights = Tensor [1] [0],
        memory_query = Tensor [1] [0]\<rparr>) = Inl AttributeError"
  using extract_consciousness_representation_raises[of "[[(''text'', PStr ''hello'')]]"
      example_network "\<lambda>k r c. 1" "Tensor [512] (replicate 512 0)" example_model "\<lambda>r c. 1"
      "\<lparr>hash_indices = Tensor [1, 1] [0], attention_weights = Tensor [1] [0],
        memory_query = Tensor [1] [0]\<rparr>"]
  by simp

text \<open>
  C3. On the one-item input \<open>[{'text': 'hello'}]\<close>, with a feature vector of
  dimension \<open>input_dim\<close> from the extractor, no unit vector is returned: the call
  raises ValueError. (On the empty input the zero vector of length \<open>unified_dim\<close> is
  returned.)
\<close>

theorem extract_consciousness_representation_one_item:
  "extract_consciousness_representation example_network randns [[(''text'', PStr ''hello'')]]
     = Inl ValueError"
  by (simp add: extract_consciousness_representation_def example_network_def example_model_def
      stack_def rows_def forward_def unsqueeze0_def)

lemma extract_empty:
  "extract_consciousness_representation cn randns []
     = Inr (Tensor [unified_dim cn] (replicate (unified_dim cn) 0))"
  by (simp add: extract_consciousness_representation_def)

section \<open>The graph builder\<close>

lemma generate_consciousness_graph_raises:
  assumes "user_data \<noteq> []"
  shows "\<exists>e. generate_consciousness_graph cn now randns s user_data
           = (s\<lparr>nodes := PList [], edges := PList []\<rparr>, Inl e)"
  using extract_raises[OF assms, of cn randns]
  by (auto simp: generate_consciousness_graph_def)

lemma generate_consciousness_graph_returns_only_on_empty:
  assumes "snd (generate_consciousness_graph cn now randns s user_data) = Inr g"
  shows "user_data = []"
proof (rule ccontr)
  assume "user_data \<noteq> []"
  from generate_consciousness_graph_raises[OF this, of cn now randns s] assms
  show False by auto
qed

text \<open>
  C5. On the one-item input \<open>[{'text': 'hello'}]\<close> no graph is returned, so no
  \<open>consciousness_connection\<close> edge of weight 1.0 either: the call raises ValueError
  while it extracts the consciousness vector, and leaves the network without nodes and
  edges.
\<close>

theorem generate_consciousness_graph_one_item:
  "generate_consciousness_graph example_network now randns s [[(''text'', PStr ''hello'')]]
     = (\<lparr>nodes = PList [], edges = PList []\<rparr>, Inl ValueError)"
  by (simp add: generate_consciousness_graph_def extract_consciousness_representation_def
      example_network_def example_model_def stack_def rows_def forward_def unsqueeze0_def)

text \<open>
  C6. On an input of three items (a text, an image, a text with an image) no graph of
  four nodes is returned: the call raises ValueError before the core node is created.
  The nodes and edges of a prior call are discarded all the same.
\<close>

theorem generate_consciousness_graph_three_items:
  "generate_consciousness_graph example_network now randns
      \<lparr>nodes = PList [PStr ''left over''], edges = PList [PStr ''left over'']\<rparr>
      [[(''text'', PStr ''first note'')], [(''image'', PStr ''base64'')],
       [(''text'', PStr ''note with image''), (''image'', PStr ''base64'')]]
     = (\<lparr>nodes = PList [], edges = PList []\<rparr>, Inl ValueError)"
  by (simp add: generate_consciousness_graph_def extract_consciousness_representation_def
      example_network_def example_model_def stack_def rows_def forward_def unsqueeze0_def)

subsection \<open>The loop over the items\<close>

lemma built_node_id:
  "built_node cn k node \<Longrightarrow> py_getitem node ''id'' = Inr (PStr (node_ids cn k))"
  by (auto simp: built_node_def py_getitem_def)

lemma built_node_embedding:
  "built_node cn k node \<Longrightarrow> \<exists>e. py_getitem node ''embedding'' = Inr e"
  by (auto simp: built_node_def py_getitem_def)

lemma with_score_built:
  "built_node cn k node \<Longrightarrow> scored_node (with_score (node, x))
     \<and> py_getitem (with_score (node, x)) ''id'' = Inr (PStr (node_ids cn k))"
  by (auto simp: built_node_def scored_node_def with_score_def py_getitem_def)

lemma graph_node_built: "built_node cn k (graph_node (node_ids cn k) node_type data emb)"
  by (simp add: built_node_def graph_node_def)

lemma add_node_appends:
  assumes "nodes s = PList ns"
    and "(case embedding of Some e \<Rightarrow> Inr e | None \<Rightarrow> generate_embedding_from_data cn data) = Inr emb"
  shows "add_node cn s data node_type embedding
            = (s\<lparr>nodes := PList (ns @ [graph_node (node_ids cn (length ns)) node_type data emb])\<rparr>,
               Inr (node_ids cn (length ns)))"
  using assms by (simp add: add_node_def Let_def)

lemma add_edge_appends:
  assumes "edges s = PList es"
  shows "add_edge s source target edge_type w attrs
     = (s\<lparr>edges := PList (es @ [graph_edge source target edge_type w attrs])\<rparr>, Inr ())"
  using assms by (simp add: add_edge_def)

lemma graph_edge_similarity:
  "is_similarity_edge_from x (graph_edge source target edge_type w attrs)
     \<longleftrightarrow> source = PStr x \<and> edge_type = ''semantic_similarity''"
  by (auto simp: is_similarity_edge_from_def graph_edge_def py_getitem_def)

lemma find_node_finds:
  assumes "\<forall>n \<in> set ns. \<exists>k. built_node cn k n" and "\<exists>n \<in> set ns. built_node cn j n"
  shows "\<exists>n \<in> set ns. find_node ns (node_ids cn j) = Inr n"
  using assms
proof (induction ns)
  case Nil
  then show ?case by simp
next
  case (Cons n ns)
  from Cons.prems(1) obtain k where k: "built_node cn k n" by auto
  show ?case
  proof (cases "node_ids cn k = node_ids cn j")
    case True
    with k show ?thesis by (simp add: built_node_id)
  next
    case False
    with k Cons.prems(2) have "\<exists>n \<in> set ns. built_node cn j n"
      by (auto simp: built_node_def)
    with Cons.IH Cons.prems(1) obtain m where "m \<in> set ns" "find_node ns (node_ids cn j) = Inr m"
      by auto
    with k False show ?thesis by (simp add: built_node_id)
  qed
qed

lemma query_similar_nodes_built:
  assumes "nodes s = PList ns" and "\<forall>n \<in> set ns. \<exists>k. built_node cn k n"
  shows "\<exists>sims. query_similar_nodes s q top_k = Inr sims
           \<and> length sims = min top_k (length ns)
           \<and> (\<forall>sn \<in> set sims. scored_node sn)
           \<and> (length ns \<le> top_k \<longrightarrow>
                (\<forall>n \<in> set ns. \<forall>k. built_node cn k n \<longrightarrow>
                   (\<exists>sn \<in> set sims. py_getitem sn ''id'' = Inr (PStr (node_ids cn k)))))"
proof -
  let ?r = "ranked_nodes ns q"
  let ?sims = "map with_score (take top_k ?r)"
  have len: "length ?r = length ns" by (simp add: ranked_nodes_def)
  have fsts: "fst ` set ?r = set ns" by (force simp: ranked_nodes_def)
  have 1: "query_similar_nodes s q top_k = Inr ?sims"
    using assms(1) by (simp add: query_similar_nodes_def)
  have 2: "length ?sims = min top_k (length ns)" using len by simp
  have 3: "\<forall>sn \<in> set ?sims. scored_node sn"
  proof
    fix sn assume "sn \<in> set ?sims"
    then obtain p where p: "p \<in> set ?r" "sn = with_score p" by (auto dest: in_set_takeD)
    with fsts have "fst p \<in> set ns" by auto
    with assms(2) obtain k where "built_node cn k (fst p)" by auto
    from with_score_built[OF this, of "snd p"] p show "scored_node sn" by simp
  qed
  have 4: "length ns \<le> top_k \<longrightarrow>
                (\<forall>n \<in> set ns. \<forall>k. built_node cn k n \<longrightarrow>
                   (\<exists>sn \<in> set ?sims. py_getitem sn ''id'' = Inr (PStr (node_ids cn k))))"
  proof (intro impI ballI allI)
    fix n k assume le: "length ns \<le> top_k" and n: "n \<in> set ns" and b: "built_node cn k n"
    from le len have all: "take top_k ?r = ?r" by simp
    from n fsts have "n \<in> fst ` set ?r" by simp
    then obtain p where p: "p \<in> set ?r" "fst p = n" by (auto simp: image_iff)
    from with_score_built[OF b, of "snd p"] p
    have "py_getitem (with_score p) ''id'' = Inr (PStr (node_ids cn k))"
      by (metis prod.collapse)
    moreover from p all have "with_score p \<in> set ?sims" by simp
    ultimately show "\<exists>sn \<in> set ?sims. py_getitem sn ''id'' = Inr (PStr (node_ids cn k))" by blast
  qed
  from 1 2 3 4 show ?thesis by blast
qed

lemma add_similarity_edges_appends:
  assumes "edges s = PList es" and "\<forall>sn \<in> set sims. scored_node sn"
  shows "\<exists>new. add_similarity_edges s node_id sims = (s\<lparr>edges := PList (es @ new)\<rparr>, Inr ())
           \<and> (\<forall>e \<in> set new. is_similarity_edge_from node_id e)
           \<and> length new = length (filter (\<lambda>sn. py_getitem sn ''id'' \<noteq> Inr (PStr node_id)) sims)"
  using assms
proof (induction sims arbitrary: s es)
  case Nil
  then show ?case by simp
next
  case (Cons sn sims)
  from Cons.prems(2) obtain v x where
    sn: "py_getitem sn ''id'' = Inr v" "py_getitem sn ''similarity_score'' = Inr (PFloat x)"
    by (auto simp: scored_node_def)
  show ?case
  proof (cases "v = PStr node_id")
    case True
    from Cons.IH[OF Cons.prems(1)] Cons.prems(2) obtain new where
      "add_similarity_edges s node_id sims = (s\<lparr>edges := PList (es @ new)\<rparr>, Inr ())"
      "\<forall>e \<in> set new. is_similarity_edge_from node_id e"
      "length new = length (filter (\<lambda>sn. py_getitem sn ''id'' \<noteq> Inr (PStr node_id)) sims)"
      by auto
    with sn True show ?thesis by auto
  next
    case False
    let ?e = "graph_edge (PStr node_id) v ''semantic_similarity'' x [(''similarity_score'', PFloat x)]"
    let ?s1 = "s\<lparr>edges := PList (es @ [?e])\<rparr>"
    have e1: "edges ?s1 = PList (es @ [?e])" by simp
    from Cons.IH[OF e1] Cons.prems(2) obtain new where new:
      "add_similarity_edges ?s1 node_id sims = (?s1\<lparr>edges := PList ((es @ [?e]) @ new)\<rparr>, Inr ())"
      "\<forall>e \<in> set new. is_similarity_edge_from node_id e"
      "length new = length (filter (\<lambda>sn. py_getitem sn ''id'' \<noteq> Inr (PStr node_id)) sims)"
      by auto
    have "add_similarity_edges s node_id (sn # sims) = (s\<lparr>edges := PList (es @ (?e # new))\<rparr>, Inr ())"
      using sn False new(1) add_edge_appends[OF Cons.prems(1)]
      by (simp add: py_float_def)
    moreover have "\<forall>e \<in> set (?e # new). is_similarity_edge_from node_id e"
      using new(2) by (simp add: graph_edge_similarity)
    moreover have "length (?e # new)
        = length (filter (\<lambda>sn. py_getitem sn ''id'' \<noteq> Inr (PStr node_id)) (sn # sims))"
      using new(3) sn False by simp
    ultimately show ?thesis by blast
  qed
qed


lemma built_nodes_snoc:
  assumes "\<forall>k<length ns. built_node cn k (ns ! k)" and "built_node cn (length ns) node"
  shows "\<forall>k<length (ns @ [node]). built_node cn k ((ns @ [node]) ! k)"
  using assms by (auto simp: nth_append less_Suc_eq)

lemma built_nodes_set:
  assumes "\<forall>k<length ns. built_node cn k (ns ! k)"
  shows "\<forall>n \<in> set ns. \<exists>k. built_node cn k n"
  using assms by (metis in_set_conv_nth)

lemma similar_count_bound:
  assumes len: "length sims = min 3 (Suc (Suc i))"
    and self: "Suc (Suc i) \<le> 3 \<longrightarrow> (\<exists>sn \<in> set sims. py_getitem sn ''id'' = Inr (PStr node_id))"
  shows "length (filter (\<lambda>sn. py_getitem sn ''id'' \<noteq> Inr (PStr node_id)) sims) \<le> min 3 (Suc i)"
proof (cases "Suc (Suc i) \<le> 3")
  case True
  with self obtain sn where "sn \<in> set sims" "\<not> py_getitem sn ''id'' \<noteq> Inr (PStr node_id)"
    by auto
  then have "length (filter (\<lambda>sn. py_getitem sn ''id'' \<noteq> Inr (PStr node_id)) sims) < length sims"
    by (rule length_filter_less)
  with len True show ?thesis by simp
next
  case False
  have "length (filter (\<lambda>sn. py_getitem sn ''id'' \<noteq> Inr (PStr node_id)) sims) \<le> length sims"
    by (rule length_filter_le)
  with len False show ?thesis by simp
qed

lemma process_items_step:
  assumes ns: "nodes s = PList ns" and es: "edges s = PList es" and len: "length ns = Suc i"
    and built: "\<forall>k<length ns. built_node cn k (ns ! k)"
    and gen: "generate_embedding_from_data cn data_item = Inr emb"
  shows "\<exists>node sim_new.
      process_items cn core_node_id s i (data_item # rest)
        = process_items cn core_node_id
            (s\<lparr>nodes := PList (ns @ [node]),
               edges := PList (es @ graph_edge (PStr core_node_id) (PStr (node_ids cn (Suc i)))
                  ''consciousness_connection'' (1 / real (i + 1)) [] # sim_new)\<rparr>) (Suc i) rest
    \<and> built_node cn (Suc i) node
    \<and> (\<forall>e \<in> set sim_new. is_similarity_edge_from (node_ids cn (Suc i)) e)
    \<and> length sim_new \<le> min 3 (Suc i)"
proof -
  let ?nid = "node_ids cn (Suc i)"
  let ?node = "graph_node ?nid (determine_data_type data_item) data_item emb"
  let ?conn = "graph_edge (PStr core_node_id) (PStr ?nid) ''consciousness_connection'' (1 / real (i + 1)) []"
  let ?s1 = "s\<lparr>nodes := PList (ns @ [?node])\<rparr>"
  let ?s2 = "?s1\<lparr>edges := PList (es @ [?conn])\<rparr>"
  have a1: "add_node cn s data_item (determine_data_type data_item) None = (?s1, Inr ?nid)"
    using add_node_appends[OF ns, where embedding=None and cn=cn and data=data_item and emb=emb] gen len
    by simp
  have a2: "add_edge ?s1 (PStr core_node_id) (PStr ?nid) ''consciousness_connection''
              (1 / real (i + 1)) [] = (?s2, Inr ())"
    using add_edge_appends[of ?s1 es] es by simp
  have node_built: "built_node cn (Suc i) ?node" by (rule graph_node_built)
  have built1: "\<forall>k<length (ns @ [?node]). built_node cn k ((ns @ [?node]) ! k)"
    using built_nodes_snoc[OF built] node_built len by simp
  have set1: "\<forall>n \<in> set (ns @ [?node]). \<exists>k. built_node cn k n"
    by (rule built_nodes_set[OF built1])
  have self1: "\<exists>n \<in> set (ns @ [?node]). built_node cn (Suc i) n"
    using node_built by auto
  from find_node_finds[OF set1 self1] obtain n where
    n: "n \<in> set (ns @ [?node])" "find_node (ns @ [?node]) ?nid = Inr n" by blast
  have a3: "get_node_by_id ?s2 ?nid = Inr n"
    using n(2) by (simp add: get_node_by_id_def)
  from set1 n(1) obtain k where "built_node cn k n" by blast
  from built_node_embedding[OF this] obtain e where a4: "py_getitem n ''embedding'' = Inr e" by blast
  have nodes2: "nodes ?s2 = PList (ns @ [?node])" by simp
  from query_similar_nodes_built[OF nodes2 set1, of "np_array e" 3] obtain sims where
    a5: "query_similar_nodes ?s2 (np_array e) 3 = Inr sims"
    and slen: "length sims = min 3 (length (ns @ [?node]))"
    and scored: "\<forall>sn \<in> set sims. scored_node sn"
    and all: "length (ns @ [?node]) \<le> 3 \<longrightarrow>
                (\<forall>n \<in> set (ns @ [?node]). \<forall>k. built_node cn k n \<longrightarrow>
                   (\<exists>sn \<in> set sims. py_getitem sn ''id'' = Inr (PStr (node_ids cn k))))"
    by blast
  have edges2: "edges ?s2 = PList (es @ [?conn])" by simp
  from add_similarity_edges_appends[OF edges2 scored, of ?nid] obtain sim_new where
    a6: "add_similarity_edges ?s2 ?nid sims = (?s2\<lparr>edges := PList ((es @ [?conn]) @ sim_new)\<rparr>, Inr ())"
    and sim_from: "\<forall>e \<in> set sim_new. is_similarity_edge_from ?nid e"
    and sim_len: "length sim_new = length (filter (\<lambda>sn. py_getitem sn ''id'' \<noteq> Inr (PStr ?nid)) sims)"
    by blast
  have slen': "length sims = min 3 (Suc (Suc i))" using slen len by simp
  have self': "Suc (Suc i) \<le> 3 \<longrightarrow> (\<exists>sn \<in> set sims. py_getitem sn ''id'' = Inr (PStr ?nid))"
    using all node_built len by auto
  have bound: "length sim_new \<le> min 3 (Suc i)"
    using similar_count_bound[OF slen' self'] sim_len by simp
  have "process_items cn core_node_id s i (data_item # rest)
        = process_items cn core_node_id
            (s\<lparr>nodes := PList (ns @ [?node]), edges := PList (es @ ?conn # sim_new)\<rparr>) (Suc i) rest"
    using a1 a2 a3 a4 a5 a6 by simp
  with node_built sim_from bound show ?thesis by blast
qed

lemma process_items_builds:
  assumes "nodes s = PList ns" and "edges s = PList es" and "length ns = Suc i"
    and "\<forall>k<length ns. built_node cn k (ns ! k)"
    and "list_all (\<lambda>item. \<not> isl (generate_embedding_from_data cn item)) items"
  shows "\<exists>item_nodes batches.
      process_items cn core_node_id s i items
        = (s\<lparr>nodes := PList (ns @ item_nodes),
             edges := PList (es @ loop_edges cn core_node_id i batches)\<rparr>, Inr ())
    \<and> length item_nodes = length items \<and> length batches = length items
    \<and> nodes_built cn i item_nodes \<and> batches_bounded cn i batches"
  using assms
proof (induction items arbitrary: s ns es i)
  case Nil
  have "process_items cn core_node_id s i []
      = (s\<lparr>nodes := PList (ns @ []), edges := PList (es @ loop_edges cn core_node_id i [])\<rparr>, Inr ())"
    using Nil.prems(1,2) by simp
  then show ?case
    by (metis batches_bounded.simps(1) list.size(3) nodes_built.simps(1))
next
  case (Cons data_item rest)
  from Cons.prems(5) obtain emb where gen: "generate_embedding_from_data cn data_item = Inr emb"
    by (cases "generate_embedding_from_data cn data_item") auto
  let ?conn = "graph_edge (PStr core_node_id) (PStr (node_ids cn (Suc i)))
                  ''consciousness_connection'' (1 / real (i + 1)) []"
  from process_items_step[OF Cons.prems(1,2,3,4) gen, of core_node_id rest]
  obtain node sim_new where
    step: "process_items cn core_node_id s i (data_item # rest)
        = process_items cn core_node_id
            (s\<lparr>nodes := PList (ns @ [node]), edges := PList (es @ ?conn # sim_new)\<rparr>) (Suc i) rest"
    and node: "built_node cn (Suc i) node"
    and sim: "\<forall>e \<in> set sim_new. is_similarity_edge_from (node_ids cn (Suc i)) e"
    and bound: "length sim_new \<le> min 3 (Suc i)"
    by blast
  let ?s1 = "s\<lparr>nodes := PList (ns @ [node]), edges := PList (es @ ?conn # sim_new)\<rparr>"
  have p1: "nodes ?s1 = PList (ns @ [node])" by simp
  have p2: "edges ?s1 = PList (es @ ?conn # sim_new)" by simp
  have p3: "length (ns @ [node]) = Suc (Suc i)" using Cons.prems(3) by simp
  have p4: "\<forall>k<length (ns @ [node]). built_node cn k ((ns @ [node]) ! k)"
    using built_nodes_snoc[OF Cons.prems(4)] node Cons.prems(3) by simp
  have p5: "list_all (\<lambda>item. \<not> isl (generate_embedding_from_data cn item)) rest"
    using Cons.prems(5) by simp
  from Cons.IH[OF p1 p2 p3 p4 p5] obtain item_nodes batches where
    ih: "process_items cn core_node_id ?s1 (Suc i) rest
        = (?s1\<lparr>nodes := PList ((ns @ [node]) @ item_nodes),
               edges := PList ((es @ ?conn # sim_new) @ loop_edges cn core_node_id (Suc i) batches)\<rparr>,
           Inr ())"
    and lens: "length item_nodes = length rest" "length batches = length rest"
    and oks: "nodes_built cn (Suc i) item_nodes" "batches_bounded cn (Suc i) batches"
    by blast
  have "process_items cn core_node_id s i (data_item # rest)
      = (s\<lparr>nodes := PList (ns @ (node # item_nodes)),
           edges := PList (es @ loop_edges cn core_node_id i (sim_new # batches))\<rparr>, Inr ())"
    using step ih by simp
  moreover have "length (node # item_nodes) = length (data_item # rest)"
    and "length (sim_new # batches) = length (data_item # rest)"
    using lens by simp_all
  moreover have "nodes_built cn i (node # item_nodes)" using node oks(1) by simp
  moreover have "batches_bounded cn i (sim_new # batches)"
    using sim bound oks(2) by (simp add: list_all_iff)
  ultimately show ?case by blast
qed

lemma nodes_built_nth:
  "nodes_built cn i item_nodes \<Longrightarrow> j < length item_nodes
     \<Longrightarrow> built_node cn (Suc i + j) (item_nodes ! j)"
proof (induction item_nodes arbitrary: i j)
  case Nil
  then show ?case by simp
next
  case (Cons node rest)
  show ?case
  proof (cases j)
    case 0
    with Cons.prems show ?thesis by simp
  next
    case (Suc j')
    with Cons.prems have "nodes_built cn (Suc i) rest" and "j' < length rest" by simp_all
    from Cons.IH[OF this] Suc show ?thesis by simp
  qed
qed

lemma similarity_edge_source_unique:
  "is_similarity_edge_from x e \<Longrightarrow> is_similarity_edge_from y e \<Longrightarrow> x = y"
  by (simp add: is_similarity_edge_from_def)

lemma loop_edges_count:
  assumes "inj (node_ids cn)" and "batches_bounded cn i batches"
  shows "length (filter (is_similarity_edge_from (node_ids cn m)) (loop_edges cn core_node_id i batches))
           \<le> (if Suc i \<le> m \<and> m \<le> i + length batches then min 3 m else 0)"
  using assms(2)
proof (induction batches arbitrary: i)
  case Nil
  then show ?case by simp
next
  case (Cons batch batches)
  let ?P = "is_similarity_edge_from (node_ids cn m)"
  from Cons.prems have b: "list_all (is_similarity_edge_from (node_ids cn (Suc i))) batch"
    and bl: "length batch \<le> min 3 (Suc i)" and rest: "batches_bounded cn (Suc i) batches"
    by simp_all
  have conn: "\<not> ?P (graph_edge (PStr core_node_id) (PStr (node_ids cn (Suc i)))
                  ''consciousness_connection'' (1 / real (i + 1)) [])"
    by (simp add: graph_edge_similarity)
  have ih: "length (filter ?P (loop_edges cn core_node_id (Suc i) batches))
           \<le> (if Suc (Suc i) \<le> m \<and> m \<le> Suc i + length batches then min 3 m else 0)"
    by (rule Cons.IH[OF rest])
  show ?case
  proof (cases "m = Suc i")
    case True
    have "length (filter ?P batch) \<le> length batch" by (rule length_filter_le)
    with bl have "length (filter ?P batch) \<le> min 3 (Suc i)" by linarith
    with True ih conn show ?thesis by simp
  next
    case False
    have "filter ?P batch = []"
    proof -
      have "\<forall>e \<in> set batch. \<not> ?P e"
      proof
        fix e assume "e \<in> set batch"
        with b have "is_similarity_edge_from (node_ids cn (Suc i)) e" by (simp add: list_all_iff)
        show "\<not> ?P e"
        proof
          assume "?P e"
          from similarity_edge_source_unique[OF this \<open>is_similarity_edge_from (node_ids cn (Suc i)) e\<close>]
          have "node_ids cn m = node_ids cn (Suc i)" .
          with assms(1) False show False by (auto dest: injD)
        qed
      qed
      then show ?thesis by (simp add: filter_empty_conv)
    qed
    with False ih conn show ?thesis by auto
  qed
qed

lemma loop_edges_connections:
  assumes "batches_bounded cn i batches"
  shows "filter is_connection_edge (loop_edges cn core_node_id i batches)
     = map (\<lambda>j. graph_edge (PStr core_node_id) (PStr (node_ids cn (Suc j)))
              ''consciousness_connection'' (1 / real (j + 1)) []) [i..<i + length batches]"
  using assms
proof (induction batches arbitrary: i)
  case Nil
  then show ?case by simp
next
  case (Cons batch batches)
  from Cons.prems have b: "list_all (is_similarity_edge_from (node_ids cn (Suc i))) batch"
    and rest: "batches_bounded cn (Suc i) batches" by simp_all
  have "\<forall>e \<in> set batch. \<not> is_connection_edge e"
    using b by (auto simp: list_all_iff is_similarity_edge_from_def is_connection_edge_def)
  then have "filter is_connection_edge batch = []" by (simp add: filter_empty_conv)
  moreover have "is_connection_edge (graph_edge (PStr core_node_id) (PStr (node_ids cn (Suc i)))
      ''consciousness_connection'' (1 / real (i + 1)) [])"
    by (simp add: is_connection_edge_def graph_edge_def py_getitem_def)
  moreover have "[i..<i + length (batch # batches)] = i # [Suc i..<Suc i + length batches]"
    by (subst upt_conv_Cons) simp_all
  ultimately show ?case using Cons.IH[OF rest] by simp
qed

lemma build_graph_builds:
  assumes "nodes s = PList []" and "edges s = PList []"
    and "list_all (\<lambda>item. \<not> isl (generate_embedding_from_data cn item)) user_data"
  shows "\<exists>item_nodes batches.
      build_graph cn now s cv user_data
        = (s\<lparr>nodes := PList (graph_node (node_ids cn 0) ''consciousness''
                 [(''type'', PStr ''core_consciousness''), (''timestamp'', PStr now)] cv # item_nodes),
             edges := PList (loop_edges cn (node_ids cn 0) 0 batches)\<rparr>,
           Inr \<lparr>consciousness_vector = tolist cv,
                 graph_nodes = PList (graph_node (node_ids cn 0) ''consciousness''
                   [(''type'', PStr ''core_consciousness''), (''timestamp'', PStr now)] cv # item_nodes),
                 graph_edges = PList (loop_edges cn (node_ids cn 0) 0 batches)\<rparr>)
    \<and> length item_nodes = length user_data \<and> length batches = length user_data
    \<and> nodes_built cn 0 item_nodes \<and> batches_bounded cn 0 batches"
proof -
  let ?core = "graph_node (node_ids cn 0) ''consciousness''
      [(''type'', PStr ''core_consciousness''), (''timestamp'', PStr now)] cv"
  let ?s1 = "s\<lparr>nodes := PList [?core]\<rparr>"
  have a1: "add_node cn s [(''type'', PStr ''core_consciousness''), (''timestamp'', PStr now)]
              ''consciousness'' (Some cv) = (?s1, Inr (node_ids cn 0))"
    using add_node_appends[OF assms(1), where embedding="Some cv" and emb=cv and cn=cn] by simp
  have core: "built_node cn 0 ?core" by (rule graph_node_built)
  have p1: "nodes ?s1 = PList [?core]" by simp
  have p2: "edges ?s1 = PList []" using assms(2) by simp
  have p3: "length [?core] = Suc 0" by simp
  have p4: "\<forall>k<length [?core]. built_node cn k ([?core] ! k)" using core by simp
  from process_items_builds[OF p1 p2 p3 p4 assms(3), of "node_ids cn 0"]
  obtain item_nodes batches where
    run: "process_items cn (node_ids cn 0) ?s1 0 user_data
        = (?s1\<lparr>nodes := PList ([?core] @ item_nodes),
               edges := PList ([] @ loop_edges cn (node_ids cn 0) 0 batches)\<rparr>, Inr ())"
    and rest: "length item_nodes = length user_data" "length batches = length user_data"
      "nodes_built cn 0 item_nodes" "batches_bounded cn 0 batches"
    by blast
  have "build_graph cn now s cv user_data
        = (s\<lparr>nodes := PList (?core # item_nodes),
             edges := PList (loop_edges cn (node_ids cn 0) 0 batches)\<rparr>,
           Inr \<lparr>consciousness_vector = tolist cv, graph_nodes = PList (?core # item_nodes),
                 graph_edges = PList (loop_edges cn (node_ids cn 0) 0 batches)\<rparr>)"
    using a1 run by (simp add: build_graph_def)
  with rest show ?thesis by blast
qed

text \<open>
  Once the consciousness vector is there, lines 61-104 do build the graph the spec
  describes: one core node first and one node per item, and per item one
  \<open>consciousness_connection\<close> edge from the core node, of weight \<open>1 / (i + 1)\<close>, in
  item order. The call never gets that far on a nonempty input
  (\<open>generate_consciousness_graph_raises\<close>).
\<close>

lemma build_graph_connection_edges:
  assumes "nodes s = PList []" and "edges s = PList []"
    and "list_all (\<lambda>item. \<not> isl (generate_embedding_from_data cn item)) user_data"
  shows "\<exists>s' g ns es. build_graph cn now s cv user_data = (s', Inr g)
      \<and> graph_nodes g = PList ns \<and> length ns = Suc (length user_data)
      \<and> py_getitem (hd ns) ''kind'' = Inr (PStr ''consciousness'')
      \<and> graph_edges g = PList es
      \<and> filter is_connection_edge es
          = map (\<lambda>i. graph_edge (PStr (node_ids cn 0)) (PStr (node_ids cn (Suc i)))
                  ''consciousness_connection'' (1 / real (i + 1)) []) [0..<length user_data]"
proof -
  let ?core = "graph_node (node_ids cn 0) ''consciousness''
      [(''type'', PStr ''core_consciousness''), (''timestamp'', PStr now)] cv"
  from build_graph_builds[OF assms, of now cv]
  obtain item_nodes batches where
    run: "build_graph cn now s cv user_data
        = (s\<lparr>nodes := PList (?core # item_nodes),
             edges := PList (loop_edges cn (node_ids cn 0) 0 batches)\<rparr>,
           Inr \<lparr>consciousness_vector = tolist cv, graph_nodes = PList (?core # item_nodes),
                 graph_edges = PList (loop_edges cn (node_ids cn 0) 0 batches)\<rparr>)"
    and lens: "length item_nodes = length user_data" "length batches = length user_data"
    and bounded: "batches_bounded cn 0 batches"
    by blast
  have kind: "py_getitem (hd (?core # item_nodes)) ''kind'' = Inr (PStr ''consciousness'')"
    by (simp add: graph_node_def py_getitem_def)
  from loop_edges_connections[OF bounded, of "node_ids cn 0"] lens
  have "filter is_connection_edge (loop_edges cn (node_ids cn 0) 0 batches)
          = map (\<lambda>i. graph_edge (PStr (node_ids cn 0)) (PStr (node_ids cn (Suc i)))
                  ''consciousness_connection'' (1 / real (i + 1)) []) [0..<length user_data]"
    by simp
  with run lens kind show ?thesis by auto
qed

text \<open>
  Lines 61-104 on their own, run from the cleared network with a consciousness vector
  \<open>cv\<close>, an extractor that raises on no item and ids that are unique: the graph has
  \<open>n + 1\<close> nodes, the node of item \<open>i\<close> (0-indexed) stands at position \<open>i + 1\<close>
  and originates at most \<open>min 3 (i + 1)\<close> \<open>semantic_similarity\<close> edges. The query
  sees the core node and the item's own node beside the \<open>i\<close> earlier items, and only
  the item's own node is filtered out. The method reaches these lines for the empty
  input only (\<open>generate_consciousness_graph_returns_only_on_empty\<close>).
\<close>

lemma build_graph_similarity_edge_bound:
  assumes "nodes s = PList []" and "edges s = PList []" and "inj (node_ids cn)"
    and "list_all (\<lambda>item. \<not> isl (generate_embedding_from_data cn item)) user_data"
  shows "\<exists>s' g ns. build_graph cn now s cv user_data = (s', Inr g)
      \<and> graph_nodes g = PList ns \<and> length ns = Suc (length user_data)
      \<and> (\<forall>i<length user_data.
            py_getitem (ns ! Suc i) ''id'' = Inr (PStr (node_ids cn (Suc i)))
          \<and> similarity_edges_from (graph_edges g) (node_ids cn (Suc i)) \<le> min 3 (Suc i))"
proof -
  define core where "core = graph_node (node_ids cn 0) ''consciousness''
      [(''type'', PStr ''core_consciousness''), (''timestamp'', PStr now)] cv"
  from build_graph_builds[OF assms(1,2,4), of now cv]
  obtain item_nodes batches where
    run: "build_graph cn now s cv user_data
        = (s\<lparr>nodes := PList (core # item_nodes),
             edges := PList (loop_edges cn (node_ids cn 0) 0 batches)\<rparr>,
           Inr \<lparr>consciousness_vector = tolist cv, graph_nodes = PList (core # item_nodes),
                 graph_edges = PList (loop_edges cn (node_ids cn 0) 0 batches)\<rparr>)"
    and lens: "length item_nodes = length user_data" "length batches = length user_data"
    and built: "nodes_built cn 0 item_nodes" and bounded: "batches_bounded cn 0 batches"
    unfolding core_def by blast
  let ?g = "\<lparr>consciousness_vector = tolist cv, graph_nodes = PList (core # item_nodes),
                 graph_edges = PList (loop_edges cn (node_ids cn 0) 0 batches)\<rparr>"
  have "\<forall>i<length user_data.
            py_getitem ((core # item_nodes) ! Suc i) ''id'' = Inr (PStr (node_ids cn (Suc i)))
          \<and> similarity_edges_from (graph_edges ?g) (node_ids cn (Suc i)) \<le> min 3 (Suc i)"
  proof (intro allI impI)
    fix i assume i: "i < length user_data"
    with lens have "i < length item_nodes" by simp
    from nodes_built_nth[OF built this] have "built_node cn (Suc i) (item_nodes ! i)" by simp
    then have id: "py_getitem ((core # item_nodes) ! Suc i) ''id'' = Inr (PStr (node_ids cn (Suc i)))"
      by (simp add: built_node_id)
    from loop_edges_count[OF assms(3) bounded, of "Suc i" "node_ids cn 0"] i lens
    have "similarity_edges_from (graph_edges ?g) (node_ids cn (Suc i)) \<le> min 3 (Suc i)"
      by (simp add: similarity_edges_from_def)
    with id show "py_getitem ((core # item_nodes) ! Suc i) ''id'' = Inr (PStr (node_ids cn (Suc i)))
          \<and> similarity_edges_from (graph_edges ?g) (node_ids cn (Suc i)) \<le> min 3 (Suc i)" by simp
  qed
  with run lens show ?thesis by auto
qed

text \<open>
  With one item these lines query the two nodes there are, the core node and the item's
  own, drop the item's own, and add one \<open>semantic_similarity\<close> edge from the item's
  node \<open>nn\<close> to the core node \<open>n\<close>.
\<close>

lemma build_graph_one_item:
  "snd (build_graph unit_network ''2023-01-01T12:00:00''
          \<lparr>nodes = PList [], edges = PList []\<rparr> (Tensor [2] [1, 0]) [[(''text'', PStr ''hello'')]])
     = Inr \<lparr>consciousness_vector = PList [PFloat 1, PFloat 0],
            graph_nodes = PList
              [graph_node ''n'' ''consciousness''
                 [(''type'', PStr ''core_consciousness''), (''timestamp'', PStr ''2023-01-01T12:00:00'')]
                 (Tensor [2] [1, 0]),
               graph_node ''nn'' ''text_data'' [(''text'', PStr ''hello'')] (Tensor [2] [1, 0])],
            graph_edges = PList
              [graph_edge (PStr ''n'') (PStr ''nn'') ''consciousness_connection'' 1 [],
               graph_edge (PStr ''nn'') (PStr ''n'') ''semantic_similarity'' 1
                 [(''similarity_score'', PFloat 1)]]\<rparr>
   \<and> similarity_edges_from (PList
              [graph_edge (PStr ''n'') (PStr ''nn'') ''consciousness_connection'' 1 [],
               graph_edge (PStr ''nn'') (PStr ''n'') ''semantic_similarity'' 1
                 [(''similarity_score'', PFloat 1)]]) ''nn'' = 1"
  by (simp add: build_graph_def add_node_def unit_network_def add_edge_def determine_data_type_def
      has_key_def get_node_by_id_def py_getitem_def query_similar_nodes_def ranked_nodes_def
      cosine_similarity_def node_embedding_def tolist_def item_dict_def with_score_def py_float_def
      graph_node_def graph_edge_def similarity_edges_from_def is_similarity_edge_from_def
      Let_def upt_rec_numeral numeral_2_eq_2)

section \<open>The similarity index\<close>

lemma filter_take_drop: "filter P xs = filter P (take k xs) @ filter P (drop k xs)"
  by (metis append_take_drop_id filter_append)

lemma ranked_nodes_scores:
  "p \<in> set (ranked_nodes ns q) \<Longrightarrow> snd p = cosine_similarity q (node_embedding (fst p))"
  by (auto simp: ranked_nodes_def)

lemma ranked_nodes_mset: "mset (map fst (ranked_nodes ns q)) = mset ns"
proof -
  have "mset (map fst (ranked_nodes ns q))
      = mset (map fst (map (\<lambda>node. (node, cosine_similarity q (node_embedding node))) ns))"
    unfolding ranked_nodes_def by (simp only: mset_map mset_sort)
  also have "map fst (map (\<lambda>node. (node, cosine_similarity q (node_embedding node))) ns) = ns"
    by (simp add: comp_def)
  finally show ?thesis .
qed

lemma ranked_nodes_sorted:
  "sorted_wrt (\<lambda>a b. snd b \<le> snd a) (ranked_nodes ns q)"
proof -
  have "sorted (map (\<lambda>p. - snd p) (ranked_nodes ns q))"
    by (simp add: ranked_nodes_def)
  then show ?thesis by (simp add: sorted_map)
qed

lemma ranked_nodes_stable:
  "map fst (filter (\<lambda>p. snd p = c) (ranked_nodes ns q))
     = filter (\<lambda>n. cosine_similarity q (node_embedding n) = c) ns"
proof -
  have "filter (\<lambda>p. - snd p = - c) (ranked_nodes ns q)
      = filter (\<lambda>p. - snd p = - c) (map (\<lambda>node. (node, cosine_similarity q (node_embedding node))) ns)"
    unfolding ranked_nodes_def by (rule sort_key_stable)
  then show ?thesis by (simp add: filter_map comp_def)
qed

text \<open>
  C8. For every query \<open>q\<close>, every \<open>top_k\<close> and every list \<open>ns\<close> of nodes,
  \<open>query_similar_nodes\<close> returns scored nodes \<open>top\<close> such that: there are
  \<open>min top_k (length ns)\<close> of them; together with the nodes \<open>rest\<close> that were not
  returned they are exactly the nodes of the graph, so none is left out of the
  ranking; each carries its cosine similarity to \<open>q\<close>; the scores descend; every
  returned node scores at least as high as every node not returned; and for every
  score \<open>c\<close> the returned nodes of score \<open>c\<close> are, in this order, the first of the
  graph's nodes of score \<open>c\<close> in insertion order.
\<close>

theorem query_similar_nodes_ranking:
  assumes "nodes s = PList ns"
  shows "\<exists>top rest.
      query_similar_nodes s q top_k = Inr (map with_score top)
    \<and> length top = min top_k (length ns)
    \<and> mset (map fst (top @ rest)) = mset ns
    \<and> (\<forall>p \<in> set (top @ rest). snd p = cosine_similarity q (node_embedding (fst p)))
    \<and> sorted_wrt (\<lambda>a b. snd b \<le> snd a) top
    \<and> (\<forall>a \<in> set top. \<forall>b \<in> set rest. snd b \<le> snd a)
    \<and> (\<forall>c. \<exists>later. filter (\<lambda>n. cosine_similarity q (node_embedding n) = c) ns
                      = map fst (filter (\<lambda>p. snd p = c) top) @ later)"
proof -
  let ?r = "ranked_nodes ns q"
  let ?top = "take top_k ?r" and ?rest = "drop top_k ?r"
  have len: "length ?r = length ns" by (simp add: ranked_nodes_def)
  have 1: "query_similar_nodes s q top_k = Inr (map with_score ?top)"
    using assms by (simp add: query_similar_nodes_def)
  have 2: "length ?top = min top_k (length ns)" using len by simp
  have 3: "mset (map fst (?top @ ?rest)) = mset ns"
    by (simp only: append_take_drop_id ranked_nodes_mset)
  have 4: "\<forall>p \<in> set (?top @ ?rest). snd p = cosine_similarity q (node_embedding (fst p))"
    by (simp add: ranked_nodes_scores)
  have srt: "sorted_wrt (\<lambda>a b. snd b \<le> snd a) (?top @ ?rest)"
    using ranked_nodes_sorted[of ns q] by simp
  then have 5: "sorted_wrt (\<lambda>a b. snd b \<le> snd a) ?top"
    and 6: "\<forall>a \<in> set ?top. \<forall>b \<in> set ?rest. snd b \<le> snd a"
    unfolding sorted_wrt_append by auto
  have 7: "\<forall>c. \<exists>later. filter (\<lambda>n. cosine_similarity q (node_embedding n) = c) ns
                      = map fst (filter (\<lambda>p. snd p = c) ?top) @ later"
  proof
    fix c
    have "filter (\<lambda>n. cosine_similarity q (node_embedding n) = c) ns
        = map fst (filter (\<lambda>p. snd p = c) ?top) @ map fst (filter (\<lambda>p. snd p = c) ?rest)"
      using ranked_nodes_stable[of c ns q] filter_take_drop[of "\<lambda>p. snd p = c" ?r top_k]
      by (metis map_append)
    then show "\<exists>later. filter (\<lambda>n. cosine_similarity q (node_embedding n) = c) ns
                      = map fst (filter (\<lambda>p. snd p = c) ?top) @ later" by blast
  qed
  from 1 2 3 4 5 6 7 show ?thesis by blast
qed

theorem query_similar_nodes_ranking_witness:
  "nodes five_nodes = PList [vnode ''v0'' [1, 0], vnode ''v1'' [0, 1], vnode ''v2'' [- 1, 0],
        vnode ''v3'' [0, 1], vnode ''v4'' [1, 0]]
   \<and> query_similar_nodes five_nodes [1, 0] 3
       = Inr [with_score (vnode ''v0'' [1, 0], 1), with_score (vnode ''v4'' [1, 0], 1),
              with_score (vnode ''v1'' [0, 1], 0)]
   \<and> (\<exists>top rest.
        query_similar_nodes five_nodes [1, 0] 3 = Inr (map with_score top)
      \<and> length top = min 3 (length [vnode ''v0'' [1, 0], vnode ''v1'' [0, 1], vnode ''v2'' [- 1, 0],
          vnode ''v3'' [0, 1], vnode ''v4'' [1, 0]])
      \<and> mset (map fst (top @ rest)) = mset [vnode ''v0'' [1, 0], vnode ''v1'' [0, 1],
          vnode ''v2'' [- 1, 0], vnode ''v3'' [0, 1], vnode ''v4'' [1, 0]]
      \<and> (\<forall>p \<in> set (top @ rest). snd p = cosine_similarity [1, 0] (node_embedding (fst p)))
      \<and> sorted_wrt (\<lambda>a b. snd b \<le> snd a) top
      \<and> (\<forall>a \<in> set top. \<forall>b \<in> set rest. snd b \<le> snd a)
      \<and> (\<forall>c. \<exists>later. filter (\<lambda>n. cosine_similarity [1, 0] (node_embedding n) = c)
              [vnode ''v0'' [1, 0], vnode ''v1'' [0, 1], vnode ''v2'' [- 1, 0],
               vnode ''v3'' [0, 1], vnode ''v4'' [1, 0]]
            = map fst (filter (\<lambda>p. snd p = c) top) @ later))"
proof -
  have h: "nodes five_nodes = PList [vnode ''v0'' [1, 0], vnode ''v1'' [0, 1], vnode ''v2'' [- 1, 0],
        vnode ''v3'' [0, 1], vnode ''v4'' [1, 0]]"
    by (simp add: five_nodes_def)
  have r: "query_similar_nodes five_nodes [1, 0] 3
       = Inr [with_score (vnode ''v0'' [1, 0], 1), with_score (vnode ''v4'' [1, 0], 1),
              with_score (vnode ''v1'' [0, 1], 0)]"
    by (simp add: query_similar_nodes_def five_nodes_def ranked_nodes_def vnode_def
        cosine_similarity_def node_embedding_def py_getitem_def)
  show ?thesis
    using h r query_similar_nodes_ranking[OF h, of "[1, 0]" 3] by blast
qed

section \<open>Persistence\<close>









end
